theory Spec2Isabelle
  imports Main "HOL-Library.Sublist"
begin

section \<open>Values the connection code observes\<close>

text \<open>
  A value that a promise rejects with, or that is thrown. The code looks at such a value
  in two ways only: \<^verbatim>\<open>error instanceof Error\<close> (then \<^verbatim>\<open>error.message\<close> is a
  string) and \<^verbatim>\<open>event.reason?.message\<close> (a string, or absent). \<open>ErrorObj m\<close> is an
  \<^verbatim>\<open>Error\<close> with message \<open>m\<close>; \<open>NonError mo\<close> is any other value, with its
  \<^verbatim>\<open>message\<close> property when it has one.
\<close>

datatype thrown = ErrorObj string | NonError "string option"

fun message_of :: "thrown \<Rightarrow> string option" where
  "message_of (ErrorObj m) = Some m"
| "message_of (NonError mo) = mo"

text \<open>\<^verbatim>\<open>String.prototype.includes\<close>: the pattern occurs as a contiguous substring.\<close>

fun includes_str :: "string \<Rightarrow> string \<Rightarrow> bool" where
  "includes_str [] p = (p = [])"
| "includes_str (c # cs) p = (prefix p (c # cs) \<or> includes_str cs p)"

text \<open>
  The SDK's \<^verbatim>\<open>Sandbox\<close> handle with the fields the hook writes, and an entry of the
  sandbox listing (\<^verbatim>\<open>sandboxInfo: any\<close>) with the fields the hook reads. A field
  that is \<^verbatim>\<open>undefined\<close> is \<open>None\<close>. Handles are values: every resume returns a
  handle of its own, and an assignment to a field of one handle changes no other.
\<close>

record Sandbox =
  sandbox_id :: string
  title :: "string option"
  privacy :: "string option"
  createdAt :: "string option"
  updatedAt :: "string option"
  tags :: "string list option"

record SandboxInfo =
  info_id :: string
  info_title :: "string option"
  info_privacy :: "string option"
  info_createdAt :: "string option"
  info_updatedAt :: "string option"
  info_tags :: "string list option"

datatype SandboxSession = Session nat

datatype SandboxClient = Client nat

section \<open>The remote platform and the browser document\<close>

text \<open>
  Every call that leaves the repository is recorded, with its outcome, in a trace:
  \<^verbatim>\<open>sdk.sandboxes.resume(id)\<close>, \<^verbatim>\<open>sandbox.createSession()\<close>, the browser SDK's
  \<^verbatim>\<open>connectToSandbox({session, ...})\<close> (\<open>Open\<close>), \<^verbatim>\<open>client.disconnect()\<close>, and
  the transport's \<^verbatim>\<open>notify(visible)\<close> callback, tagged with the listener that called it.
  For the three awaited calls \<open>Inl\<close> is a rejected promise; for
  \<^verbatim>\<open>client.disconnect()\<close>, which is not awaited, \<open>Inl\<close> is an exception thrown at the
  call and \<open>Inr\<close> the promise it returned.
\<close>

text \<open>
  \<^verbatim>\<open>client.disconnect()\<close> either throws at the call or returns a promise, and the
  promise resolves or rejects later.
\<close>

datatype promise = Resolves | Rejects thrown

datatype event =
    Resume string "thrown + Sandbox"
  | CreateSession Sandbox "thrown + SandboxSession"
  | Open SandboxSession "thrown + SandboxClient"
  | ClientDisconnect SandboxClient "thrown + promise"
  | Notify nat bool

text \<open>
  The SDK is an external library. Its behaviour is a parameter: each reply may depend on
  the whole history of calls. \<open>connect_listens\<close> says whether the transport, by the time
  its open settles, has called the \<^verbatim>\<open>onFocusChange\<close> option it was given and still
  holds that registration.
\<close>

record platform =
  resume_reply :: "event list \<Rightarrow> string \<Rightarrow> thrown + Sandbox"
  createSession_reply :: "event list \<Rightarrow> Sandbox \<Rightarrow> thrown + SandboxSession"
  connect_reply :: "event list \<Rightarrow> SandboxSession \<Rightarrow> thrown + SandboxClient"
  connect_listens :: "event list \<Rightarrow> SandboxSession \<Rightarrow> bool"
  disconnect_reply :: "event list \<Rightarrow> SandboxClient \<Rightarrow> thrown + promise"

datatype visibility = Hidden | Visible

text \<open>
  The world outside the hook: the trace, \<^verbatim>\<open>document.visibilityState\<close>, the
  \<^verbatim>\<open>visibilitychange\<close> listeners of the document in registration order (each
  \<^verbatim>\<open>onVisibilityChange\<close> closure is a new function, named here by a number), the
  calls made to caller-supplied \<^verbatim>\<open>onFocusChange\<close> functions, and the rejections of
  promises that nothing handles (the browser reports each with an
  \<^verbatim>\<open>unhandledrejection\<close> event).
\<close>

record world =
  trace :: "event list"
  visibilityState :: visibility
  listeners :: "nat list"
  nextListener :: nat
  hookCalls :: "nat list"
  unhandledRejections :: "thrown list"

definition resume :: "platform \<Rightarrow> string \<Rightarrow> world \<Rightarrow> (thrown + Sandbox) \<times> world" where
  "resume pf sandboxId w =
     (let r = resume_reply pf (trace w) sandboxId
      in (r, w\<lparr>trace := trace w @ [Resume sandboxId r]\<rparr>))"

definition createSession :: "platform \<Rightarrow> Sandbox \<Rightarrow> world \<Rightarrow> (thrown + SandboxSession) \<times> world" where
  "createSession pf sb w =
     (let r = createSession_reply pf (trace w) sb
      in (r, w\<lparr>trace := trace w @ [CreateSession sb r]\<rparr>))"

definition client_disconnect ::
  "platform \<Rightarrow> SandboxClient \<Rightarrow> world \<Rightarrow> (thrown + promise) \<times> world" where
  "client_disconnect pf c w =
     (let r = disconnect_reply pf (trace w) c
      in (r, w\<lparr>trace := trace w @ [ClientDisconnect c r]\<rparr>))"

section \<open>lib/codesandbox: the browser connection function\<close>

text \<open>
  The default \<^verbatim>\<open>onFocusChange\<close>: it adds a new \<^verbatim>\<open>visibilitychange\<close> listener to the
  document and returns the function that removes this listener.
\<close>

definition addEventListener :: "nat \<Rightarrow> world \<Rightarrow> world" where
  "addEventListener n w =
     (if n \<in> set (listeners w) then w else w\<lparr>listeners := listeners w @ [n]\<rparr>)"

definition removeEventListener :: "nat \<Rightarrow> world \<Rightarrow> world" where
  "removeEventListener n w = w\<lparr>listeners := remove1 n (listeners w)\<rparr>"

definition defaultOnFocusChange :: "world \<Rightarrow> nat \<times> world" where
  "defaultOnFocusChange w =
     (let onVisibilityChange = nextListener w
      in (onVisibilityChange,
          addEventListener onVisibilityChange (w\<lparr>nextListener := Suc (nextListener w)\<rparr>)))"

definition unsubscribe :: "nat \<Rightarrow> world \<Rightarrow> world" where
  "unsubscribe onVisibilityChange w = removeEventListener onVisibilityChange w"

text \<open>
  The body of the listener: \<^verbatim>\<open>notify(document.visibilityState === 'visible')\<close>.
\<close>

definition onVisibilityChange :: "nat \<Rightarrow> world \<Rightarrow> world" where
  "onVisibilityChange n w = w\<lparr>trace := trace w @ [Notify n (visibilityState w = Visible)]\<rparr>"

text \<open>
  The browser changes \<^verbatim>\<open>document.visibilityState\<close> and dispatches
  \<^verbatim>\<open>visibilitychange\<close>: the registered listeners run in registration order.
\<close>

definition visibilitychange :: "visibility \<Rightarrow> world \<Rightarrow> world" where
  "visibilitychange v w = fold onVisibilityChange (listeners w) (w\<lparr>visibilityState := v\<rparr>)"

text \<open>
  \<^verbatim>\<open>options?.onFocusChange || (default)\<close>: a caller-supplied function is opaque (named
  by a number) and its call is only recorded.
\<close>

definition onFocusChange :: "nat option \<Rightarrow> world \<Rightarrow> world" where
  "onFocusChange custom w =
     (case custom of
        Some h \<Rightarrow> w\<lparr>hookCalls := hookCalls w @ [h]\<rparr>
      | None \<Rightarrow> snd (defaultOnFocusChange w))"

text \<open>The browser SDK's \<^verbatim>\<open>connectToSandbox\<close>, called with the session and the callbacks.\<close>

definition sdk_connectToSandbox ::
  "platform \<Rightarrow> SandboxSession \<Rightarrow> nat option \<Rightarrow> world \<Rightarrow> (thrown + SandboxClient) \<times> world" where
  "sdk_connectToSandbox pf s custom w =
     (let r = connect_reply pf (trace w) s;
          w1 = (if connect_listens pf (trace w) s then onFocusChange custom w else w)
      in (r, w1\<lparr>trace := trace w1 @ [Open s r]\<rparr>))"

text \<open>
  The \<^verbatim>\<open>getSession\<close> callback given to the transport: resume, then create a session;
  the \<^verbatim>\<open>catch\<close> block logs and rethrows.
\<close>

definition getSession :: "platform \<Rightarrow> string \<Rightarrow> world \<Rightarrow> (thrown + SandboxSession) \<times> world" where
  "getSession pf i w =
     (case resume pf i w of
        (Inl e, w1) \<Rightarrow> (Inl e, w1)
      | (Inr reconnectSandbox, w1) \<Rightarrow>
          (case createSession pf reconnectSandbox w1 of
             (Inl e, w2) \<Rightarrow> (Inl e, w2)
           | (Inr newSession, w2) \<Rightarrow> (Inr newSession, w2)))"

text \<open>The transport invokes the callback once per element of the list, one call at a time.\<close>

fun getSession_times ::
  "platform \<Rightarrow> string list \<Rightarrow> world \<Rightarrow> (thrown + SandboxSession) list \<times> world" where
  "getSession_times pf [] w = ([], w)"
| "getSession_times pf (i # ids) w =
     (case getSession pf i w of
        (r, w1) \<Rightarrow> (case getSession_times pf ids w1 of (rs, w2) \<Rightarrow> (r # rs, w2)))"

text \<open>
  \<^verbatim>\<open>connectToBrowserSandbox\<close>: three awaited calls, each taking the result of the one
  before; a rejection leaves the function at once. The \<^verbatim>\<open>console.log\<close> lines and the
  \<^verbatim>\<open>initStatusCb\<close> option, which the hook uses for logging only, are left out.
\<close>

definition connectToBrowserSandbox ::
  "platform \<Rightarrow> string \<Rightarrow> nat option \<Rightarrow> world \<Rightarrow> (thrown + SandboxClient \<times> Sandbox) \<times> world" where
  "connectToBrowserSandbox pf sandboxId custom w =
     (case resume pf sandboxId w of
        (Inl e, w1) \<Rightarrow> (Inl e, w1)
      | (Inr sb, w1) \<Rightarrow>
          (case createSession pf sb w1 of
             (Inl e, w2) \<Rightarrow> (Inl e, w2)
           | (Inr initialSession, w2) \<Rightarrow>
               (case sdk_connectToSandbox pf initialSession custom w2 of
                  (Inl e, w3) \<Rightarrow> (Inl e, w3)
                | (Inr c, w3) \<Rightarrow> (Inr (c, sb), w3))))"

section \<open>hooks/useCodeSandbox: the hook's state and actions\<close>

record SandboxWithClient =
  sandbox :: "Sandbox option"
  client :: "SandboxClient option"
  isConnecting :: bool

record hook_state =
  activeSandbox :: "SandboxWithClient option"
  connectionError :: "string option"

definition websocketMessage :: string where
  "websocketMessage =
     ''WebSocket connection failed. Please check your internet connection and try again.''"

definition sessionMessage :: string where
  "sessionMessage =
     ''Failed to create sandbox session. The sandbox may be starting up - try again in a moment.''"

definition connectionLostMessage :: string where
  "connectionLostMessage = ''Connection lost due to WebSocket error. Please try reconnecting.''"

text \<open>The message computed in the \<^verbatim>\<open>catch\<close> block of the hook's \<^verbatim>\<open>connectToSandbox\<close>.\<close>

fun connectErrorMessage :: "thrown \<Rightarrow> string" where
  "connectErrorMessage (NonError mo) = ''Failed to connect to sandbox''"
| "connectErrorMessage (ErrorObj m) =
     (if includes_str m ''WebSocket'' then websocketMessage
      else if includes_str m ''session'' then sessionMessage
      else ''Connection failed: '' @ m)"

text \<open>The five assignments that put the listing's metadata on the resumed handle.\<close>

definition withMetadata :: "SandboxInfo \<Rightarrow> Sandbox \<Rightarrow> Sandbox" where
  "withMetadata sandboxInfo sb =
     sb\<lparr>title := info_title sandboxInfo,
        privacy := info_privacy sandboxInfo,
        createdAt := info_createdAt sandboxInfo,
        updatedAt := info_updatedAt sandboxInfo,
        tags := info_tags sandboxInfo\<rparr>"

definition connecting :: SandboxWithClient where
  "connecting = \<lparr>sandbox = None, client = None, isConnecting = True\<rparr>"

text \<open>
  The hook's \<^verbatim>\<open>connectToSandbox\<close>. \<open>sdk\<close> is \<open>None\<close> when no API key is set,
  \<open>sandboxInfo\<close> is \<open>None\<close> when the argument is falsy. The result is the settled
  promise: \<open>Inl\<close> the rethrown value, \<open>Inr None\<close> for \<^verbatim>\<open>undefined\<close>.
\<close>

definition connectToSandbox ::
  "platform option \<Rightarrow> SandboxInfo option \<Rightarrow> hook_state \<times> world
     \<Rightarrow> (thrown + SandboxClient option) \<times> hook_state \<times> world" where
  "connectToSandbox sdk sandboxInfo sw =
     (case (sandboxInfo, sdk) of
        (Some info, Some pf) \<Rightarrow>
          (let st1 = (fst sw)\<lparr>connectionError := None, activeSandbox := Some connecting\<rparr>
           in case connectToBrowserSandbox pf (info_id info) None (snd sw) of
                (Inr (c, sb), w') \<Rightarrow>
                  (Inr (Some c),
                   st1\<lparr>activeSandbox :=
                         Some \<lparr>sandbox = Some (withMetadata info sb), client = Some c,
                               isConnecting = False\<rparr>\<rparr>,
                   w')
              | (Inl e, w') \<Rightarrow>
                  (Inl e,
                   st1\<lparr>connectionError := Some (connectErrorMessage e), activeSandbox := None\<rparr>,
                   w'))
      | _ \<Rightarrow> (Inr None, sw))"

text \<open>
  The two actions below are sequences of statements on the hook's state and the world. A
  statement completes (\<open>None\<close>) or throws (\<open>Some e\<close>); a sequence stops at the first
  statement that throws; \<^verbatim>\<open>try { body } catch (error) { handler }\<close> runs the handler on
  what the body throws.
\<close>

type_synonym stmt = "hook_state \<times> world \<Rightarrow> thrown option \<times> hook_state \<times> world"

definition skip_stmt :: stmt where
  "skip_stmt sw = (None, sw)"

definition seq_stmt :: "stmt \<Rightarrow> stmt \<Rightarrow> stmt" where
  "seq_stmt a b sw = (case a sw of (Some e, sw1) \<Rightarrow> (Some e, sw1) | (None, sw1) \<Rightarrow> b sw1)"

definition try_catch :: "stmt \<Rightarrow> (thrown \<Rightarrow> stmt) \<Rightarrow> stmt" where
  "try_catch body handler sw =
     (case body sw of (Some e, sw1) \<Rightarrow> handler e sw1 | (None, sw1) \<Rightarrow> (None, sw1))"

definition setActiveSandbox :: "SandboxWithClient option \<Rightarrow> stmt" where
  "setActiveSandbox v sw = (None, (fst sw)\<lparr>activeSandbox := v\<rparr>, snd sw)"

definition setConnectionError :: "string option \<Rightarrow> stmt" where
  "setConnectionError v sw = (None, (fst sw)\<lparr>connectionError := v\<rparr>, snd sw)"

text \<open>
  A promise that is dropped: when it rejects, nothing handles the rejection.
\<close>

definition drop_promise :: "promise \<Rightarrow> world \<Rightarrow> world" where
  "drop_promise p w =
     (case p of
        Resolves \<Rightarrow> w
      | Rejects e \<Rightarrow> w\<lparr>unhandledRejections := unhandledRejections w @ [e]\<rparr>)"

text \<open>
  \<^verbatim>\<open>client.disconnect()\<close> as a statement. The call is not awaited and its result is not
  used: an exception thrown at the call leaves the statement, the returned promise is
  dropped. \<^verbatim>\<open>console.error(...)\<close> only logs.
\<close>

definition call_disconnect :: "platform \<Rightarrow> SandboxClient \<Rightarrow> stmt" where
  "call_disconnect pf c sw =
     (case client_disconnect pf c (snd sw) of
        (Inl e, w1) \<Rightarrow> (Some e, fst sw, w1)
      | (Inr p, w1) \<Rightarrow> (None, fst sw, drop_promise p w1))"

definition console_error :: "thrown \<Rightarrow> stmt" where
  "console_error e = skip_stmt"

text \<open>
  \<^verbatim>\<open>disconnectFromSandbox\<close> and the hook's listener for
  \<^verbatim>\<open>codesandbox-connection-error\<close> read \<^verbatim>\<open>activeSandbox\<close> as the value their
  closure captured at the render that made them (the argument \<open>captured\<close>), and write
  the state through \<^verbatim>\<open>setActiveSandbox\<close> and \<^verbatim>\<open>setConnectionError\<close>. After a
  render the captured value is the state's own.

  \<^verbatim>\<open>if (client) { try { client.disconnect() } catch (error) { console.error(...) } }\<close>
\<close>

definition try_disconnect :: "platform \<Rightarrow> SandboxClient option \<Rightarrow> stmt" where
  "try_disconnect pf cl =
     (case cl of
        Some c \<Rightarrow> try_catch (call_disconnect pf c) console_error
      | None \<Rightarrow> skip_stmt)"

text \<open>
  \<^verbatim>\<open>disconnectFromSandbox\<close>. The first component of the result is the exception that
  leaves the function, if any. \<^verbatim>\<open>activeSandbox?.client\<close> is absent when there is no
  active sandbox.
\<close>

definition disconnectFromSandbox :: "platform \<Rightarrow> SandboxWithClient option \<Rightarrow> stmt" where
  "disconnectFromSandbox pf captured =
     seq_stmt (try_disconnect pf (case captured of Some a \<Rightarrow> client a | None \<Rightarrow> None))
       (seq_stmt (setActiveSandbox None) (setConnectionError None))"

definition handleConnectionError :: "platform \<Rightarrow> SandboxWithClient option \<Rightarrow> stmt" where
  "handleConnectionError pf captured =
     (case captured of
        Some a \<Rightarrow>
          seq_stmt (setConnectionError (Some connectionLostMessage))
            (seq_stmt (try_disconnect pf (client a)) (setActiveSandbox None))
      | None \<Rightarrow> skip_stmt)"

section \<open>main: the global error listeners\<close>

text \<open>
  \<^verbatim>\<open>event.reason?.message?.includes('DataView') ||
  event.reason?.message?.includes('Offset is outside the bounds')\<close>
\<close>

definition isDataViewError :: "thrown \<Rightarrow> bool" where
  "isDataViewError reason =
     (case message_of reason of
        None \<Rightarrow> False
      | Some m \<Rightarrow> includes_str m ''DataView'' \<or> includes_str m ''Offset is outside the bounds'')"

text \<open>
  Both listeners (\<^verbatim>\<open>unhandledrejection\<close> with \<^verbatim>\<open>event.reason\<close>, \<^verbatim>\<open>error\<close> with
  \<^verbatim>\<open>event.error\<close>) have the same body. The first component of the result is
  \<^verbatim>\<open>event.defaultPrevented\<close>; the dispatched
  \<^verbatim>\<open>codesandbox-connection-error\<close> event runs the hook's listener at once.
\<close>

datatype global_event = UnhandledRejection thrown | ErrorEvent thrown

fun globalErrorListener ::
  "platform \<Rightarrow> global_event \<Rightarrow> SandboxWithClient option \<Rightarrow> hook_state \<times> world
     \<Rightarrow> bool \<times> hook_state \<times> world" where
  "globalErrorListener pf (UnhandledRejection reason) captured sw =
     (if isDataViewError reason then (True, snd (handleConnectionError pf captured sw))
      else (False, sw))"
| "globalErrorListener pf (ErrorEvent err) captured sw =
     (if isDataViewError err then (True, snd (handleConnectionError pf captured sw))
      else (False, sw))"

text \<open>\<^verbatim>\<open>event.reason\<close> of an unhandled rejection, \<^verbatim>\<open>event.error\<close> of an error event.\<close>

fun payload :: "global_event \<Rightarrow> thrown" where
  "payload (UnhandledRejection reason) = reason"
| "payload (ErrorEvent err) = err"

section \<open>Reading the trace\<close>

fun is_Resume :: "event \<Rightarrow> bool" where
  "is_Resume (Resume i r) = True"
| "is_Resume e = False"

fun is_CreateSession :: "event \<Rightarrow> bool" where
  "is_CreateSession (CreateSession sb r) = True"
| "is_CreateSession e = False"

fun is_Open :: "event \<Rightarrow> bool" where
  "is_Open (Open s r) = True"
| "is_Open e = False"

fun resolved_Resume :: "event \<Rightarrow> bool" where
  "resolved_Resume (Resume i (Inr sb)) = True"
| "resolved_Resume e = False"

text \<open>The sessions the platform has issued, and the sessions given to the transport.\<close>

fun created_sessions :: "event list \<Rightarrow> SandboxSession list" where
  "created_sessions [] = []"
| "created_sessions (CreateSession sb (Inr s) # evs) = s # created_sessions evs"
| "created_sessions (e # evs) = created_sessions evs"

fun opened_sessions :: "event list \<Rightarrow> SandboxSession list" where
  "opened_sessions [] = []"
| "opened_sessions (Open s r # evs) = s # opened_sessions evs"
| "opened_sessions (e # evs) = opened_sessions evs"

text \<open>The calls made between the world \<open>w\<close> and the later world \<open>w'\<close>.\<close>

definition since :: "world \<Rightarrow> world \<Rightarrow> event list" where
  "since w w' = drop (length (trace w)) (trace w')"

text \<open>The successful results in a list of settled promises.\<close>

fun resolved :: "('a + 'b) list \<Rightarrow> 'b list" where
  "resolved [] = []"
| "resolved (Inr s # rs) = s # resolved rs"
| "resolved (Inl e # rs) = resolved rs"

text \<open>The value a recorded call rejected with (or threw), and the step of a connect it was.\<close>

fun rejection :: "event \<Rightarrow> thrown option" where
  "rejection (Resume i (Inl e)) = Some e"
| "rejection (CreateSession sb (Inl e)) = Some e"
| "rejection (Open s (Inl e)) = Some e"
| "rejection (ClientDisconnect c (Inl e)) = Some e"
| "rejection ev = None"

datatype step = ResumeStep | CreateSessionStep | OpenStep

fun failed_step :: "event \<Rightarrow> step option" where
  "failed_step (Resume i (Inl e)) = Some ResumeStep"
| "failed_step (CreateSession sb (Inl e)) = Some CreateSessionStep"
| "failed_step (Open s (Inl e)) = Some OpenStep"
| "failed_step ev = None"

section \<open>The error classification\<close>

text \<open>
  The hook has no error type of its own: it rethrows the value it caught and stores one of
  its messages. The classification a caller can read off that message:
\<close>

datatype classification = TransportClass | SessionClass | UnknownClass

definition classification_of :: "string \<Rightarrow> classification" where
  "classification_of msg =
     (if msg = websocketMessage then TransportClass
      else if msg = sessionMessage then SessionClass
      else UnknownClass)"

text \<open>
  The specification's classification, by the step that failed: resume or session creation
  gives \<open>session\<close>, the transport's open gives \<open>transport\<close>.
\<close>

fun spec_classification :: "step \<Rightarrow> classification" where
  "spec_classification ResumeStep = SessionClass"
| "spec_classification CreateSessionStep = SessionClass"
| "spec_classification OpenStep = TransportClass"

section \<open>Concrete platforms and inputs\<close>

text \<open>The resume response carries the id and none of the listing's metadata.\<close>

definition resumedSandbox :: "string \<Rightarrow> Sandbox" where
  "resumedSandbox i =
     \<lparr>sandbox_id = i, title = None, privacy = None, createdAt = None, updatedAt = None,
      tags = None\<rparr>"

text \<open>
  A platform on which every call succeeds: sessions and clients are numbered in the order
  they are issued, and the transport registers its focus listener.
\<close>

definition healthy :: platform where
  "healthy =
     \<lparr>resume_reply = (\<lambda>tr i. Inr (resumedSandbox i)),
      createSession_reply = (\<lambda>tr sb. Inr (Session (length (created_sessions tr)))),
      connect_reply = (\<lambda>tr s. Inr (Client (length (opened_sessions tr)))),
      connect_listens = (\<lambda>tr s. True),
      disconnect_reply = (\<lambda>tr c. Inr Resolves)\<rparr>"

definition resume_fails :: "thrown \<Rightarrow> platform" where
  "resume_fails e = healthy\<lparr>resume_reply := (\<lambda>tr i. Inl e)\<rparr>"

definition createSession_fails :: "thrown \<Rightarrow> platform" where
  "createSession_fails e = healthy\<lparr>createSession_reply := (\<lambda>tr sb. Inl e)\<rparr>"

text \<open>A transport whose open rejects; it has not called \<^verbatim>\<open>onFocusChange\<close>.\<close>

definition open_fails :: "thrown \<Rightarrow> platform" where
  "open_fails e =
     healthy\<lparr>connect_reply := (\<lambda>tr s. Inl e), connect_listens := (\<lambda>tr s. False)\<rparr>"

text \<open>
  \<^verbatim>\<open>client.disconnect()\<close> throws at the call, or returns a promise that rejects.
\<close>

definition disconnect_throws :: "thrown \<Rightarrow> platform" where
  "disconnect_throws e = healthy\<lparr>disconnect_reply := (\<lambda>tr c. Inl e)\<rparr>"

definition disconnect_rejects :: "thrown \<Rightarrow> platform" where
  "disconnect_rejects e = healthy\<lparr>disconnect_reply := (\<lambda>tr c. Inr (Rejects e))\<rparr>"

definition world0 :: world where
  "world0 =
     \<lparr>trace = [], visibilityState = Visible, listeners = [], nextListener = 0, hookCalls = [],
      unhandledRejections = []\<rparr>"

definition idle :: hook_state where
  "idle = \<lparr>activeSandbox = None, connectionError = None\<rparr>"

definition demoInfo :: SandboxInfo where
  "demoInfo =
     \<lparr>info_id = ''abc123'', info_title = Some ''Demo'', info_privacy = None,
      info_createdAt = None, info_updatedAt = None, info_tags = None\<rparr>"

text \<open>The hook's state and the world after a first successful connect on \<open>healthy\<close>.\<close>

definition connectedState :: hook_state where
  "connectedState =
     \<lparr>activeSandbox =
        Some \<lparr>sandbox = Some ((resumedSandbox ''abc123'')\<lparr>title := Some ''Demo''\<rparr>),
              client = Some (Client 0), isConnecting = False\<rparr>,
      connectionError = None\<rparr>"

definition connectedWorld :: world where
  "connectedWorld =
     \<lparr>trace =
        [Resume ''abc123'' (Inr (resumedSandbox ''abc123'')),
         CreateSession (resumedSandbox ''abc123'') (Inr (Session 0)),
         Open (Session 0) (Inr (Client 0))],
      visibilityState = Visible, listeners = [0], nextListener = 1, hookCalls = [],
      unhandledRejections = []\<rparr>"

text \<open>After the disconnect that follows, and after a second connect.\<close>

definition disconnectedWorld :: world where
  "disconnectedWorld =
     connectedWorld\<lparr>trace := trace connectedWorld @ [ClientDisconnect (Client 0) (Inr Resolves)]\<rparr>"

definition reconnectedState :: hook_state where
  "reconnectedState =
     \<lparr>activeSandbox =
        Some \<lparr>sandbox = Some ((resumedSandbox ''abc123'')\<lparr>title := Some ''Demo''\<rparr>),
              client = Some (Client 1), isConnecting = False\<rparr>,
      connectionError = None\<rparr>"

definition reconnectedWorld :: world where
  "reconnectedWorld =
     \<lparr>trace =
        [Resume ''abc123'' (Inr (resumedSandbox ''abc123'')),
         CreateSession (resumedSandbox ''abc123'') (Inr (Session 0)),
         Open (Session 0) (Inr (Client 0)),
         ClientDisconnect (Client 0) (Inr Resolves),
         Resume ''abc123'' (Inr (resumedSandbox ''abc123'')),
         CreateSession (resumedSandbox ''abc123'') (Inr (Session 1)),
         Open (Session 1) (Inr (Client 1))],
      visibilityState = Visible, listeners = [0, 1], nextListener = 2, hookCalls = [],
      unhandledRejections = []\<rparr>"

text \<open>After the transport has called the session supplier twice on the first connection.\<close>

definition suppliedWorld :: world where
  "suppliedWorld =
     connectedWorld\<lparr>trace := trace connectedWorld @
       [Resume ''abc123'' (Inr (resumedSandbox ''abc123'')),
        CreateSession (resumedSandbox ''abc123'') (Inr (Session 1)),
        Resume ''abc123'' (Inr (resumedSandbox ''abc123'')),
        CreateSession (resumedSandbox ''abc123'') (Inr (Session 2))]\<rparr>"

text \<open>After a connect on which the transport's open rejected.\<close>

definition openRejectedWorld :: "thrown \<Rightarrow> world" where
  "openRejectedWorld e =
     \<lparr>trace =
        [Resume ''abc123'' (Inr (resumedSandbox ''abc123'')),
         CreateSession (resumedSandbox ''abc123'') (Inr (Session 0)),
         Open (Session 0) (Inl e)],
      visibilityState = Visible, listeners = [], nextListener = 0, hookCalls = [],
      unhandledRejections = []\<rparr>"

text \<open>
  A later world of the first connection: a second listener was registered after the
  transport's own.
\<close>

definition twoListeners :: world where
  "twoListeners = connectedWorld\<lparr>listeners := [0, 1], nextListener := 2\<rparr>"

section \<open>Facts about the model\<close>

text \<open>\<open>includes_str\<close> is the contiguous-sublist relation of the list library.\<close>

lemma includes_str_sublist: "includes_str s p = sublist p s"
  by (induction s) (auto simp: sublist_Cons_right)

subsection \<open>The calls one invocation makes\<close>

lemma connectToBrowserSandbox_cases:
  "connectToBrowserSandbox pf sandboxId custom w = (r, w') \<Longrightarrow>
     (\<exists>e. r = Inl e \<and> since w w' = [Resume sandboxId (Inl e)])
   \<or> (\<exists>sb e. r = Inl e
          \<and> since w w' = [Resume sandboxId (Inr sb), CreateSession sb (Inl e)])
   \<or> (\<exists>sb s e. r = Inl e
          \<and> since w w' = [Resume sandboxId (Inr sb), CreateSession sb (Inr s), Open s (Inl e)])
   \<or> (\<exists>sb s c. r = Inr (c, sb)
          \<and> since w w' = [Resume sandboxId (Inr sb), CreateSession sb (Inr s), Open s (Inr c)])"
  by (auto simp: connectToBrowserSandbox_def resume_def createSession_def
      sdk_connectToSandbox_def onFocusChange_def defaultOnFocusChange_def addEventListener_def
      since_def Let_def split: sum.splits prod.splits option.splits if_splits)

lemma connectToBrowserSandbox_trace:
  "connectToBrowserSandbox pf sandboxId custom w = (r, w') \<Longrightarrow> trace w' = trace w @ since w w'"
  by (auto simp: connectToBrowserSandbox_def resume_def createSession_def
      sdk_connectToSandbox_def onFocusChange_def defaultOnFocusChange_def addEventListener_def
      since_def Let_def split: sum.splits prod.splits option.splits if_splits)

lemma since_append: "trace w' = trace w @ xs \<Longrightarrow> since w w' = xs"
  by (simp add: since_def)

lemma getSession_unfold:
  "getSession pf i w =
     (case resume_reply pf (trace w) i of
        Inl e \<Rightarrow> (Inl e, w\<lparr>trace := trace w @ [Resume i (Inl e)]\<rparr>)
      | Inr sb \<Rightarrow>
          (case createSession_reply pf (trace w @ [Resume i (Inr sb)]) sb of
             Inl e \<Rightarrow>
               (Inl e, w\<lparr>trace := trace w @ [Resume i (Inr sb), CreateSession sb (Inl e)]\<rparr>)
           | Inr s \<Rightarrow>
               (Inr s, w\<lparr>trace := trace w @ [Resume i (Inr sb), CreateSession sb (Inr s)]\<rparr>)))"
  by (simp add: getSession_def resume_def createSession_def Let_def split: sum.splits)

lemma getSession_cases:
  "getSession pf i w = (r, w') \<Longrightarrow>
     trace w' = trace w @ since w w' \<and>
     ((\<exists>e. r = Inl e \<and> since w w' = [Resume i (Inl e)])
      \<or> (\<exists>sb e. resume_reply pf (trace w) i = Inr sb \<and> r = Inl e
            \<and> since w w' = [Resume i (Inr sb), CreateSession sb (Inl e)])
      \<or> (\<exists>sb s. resume_reply pf (trace w) i = Inr sb \<and> r = Inr s
            \<and> createSession_reply pf (trace w @ [Resume i (Inr sb)]) sb = Inr s
            \<and> since w w' = [Resume i (Inr sb), CreateSession sb (Inr s)]))"
proof -
  assume g: "getSession pf i w = (r, w')"
  show ?thesis
  proof (cases "resume_reply pf (trace w) i")
    case (Inl e)
    from g show ?thesis unfolding getSession_unfold Inl by (auto simp: since_def)
  next
    case (Inr sb)
    note rs = Inr
    show ?thesis
    proof (cases "createSession_reply pf (trace w @ [Resume i (Inr sb)]) sb")
      case (Inl e)
      from g show ?thesis unfolding getSession_unfold rs sum.case Inl by (auto simp: since_def)
    next
      case (Inr s)
      from g have "r = Inr s" "w' = w\<lparr>trace := trace w @ [Resume i (Inr sb), CreateSession sb (Inr s)]\<rparr>"
        unfolding getSession_unfold rs sum.case Inr by auto
      with rs Inr show ?thesis by (simp add: since_def)
    qed
  qed
qed

lemma since_trans:
  assumes "trace w1 = trace w @ since w w1" and "trace w2 = trace w1 @ since w1 w2"
  shows "since w w2 = since w w1 @ since w1 w2" and "trace w2 = trace w @ since w w2"
proof -
  from assms have "trace w2 = trace w @ (since w w1 @ since w1 w2)" by simp
  then show "since w w2 = since w w1 @ since w1 w2" by (rule since_append)
  with assms show "trace w2 = trace w @ since w w2" by simp
qed

lemma since_refl [simp]: "since w w = []"
  by (simp add: since_def)

lemma created_sessions_append [simp]:
  "created_sessions (xs @ ys) = created_sessions xs @ created_sessions ys"
  by (induction xs rule: created_sessions.induct) auto

lemma opened_sessions_append [simp]:
  "opened_sessions (xs @ ys) = opened_sessions xs @ opened_sessions ys"
  by (induction xs rule: opened_sessions.induct) auto

lemma getSession_times_calls:
  "getSession_times pf ids w = (rs, w') \<Longrightarrow>
     trace w' = trace w @ since w w'
   \<and> length rs = length ids
   \<and> length (filter is_Resume (since w w')) = length ids
   \<and> length (filter is_CreateSession (since w w')) = length (filter resolved_Resume (since w w'))
   \<and> resolved rs = created_sessions (since w w')
   \<and> opened_sessions (since w w') = []"
proof (induction ids arbitrary: w rs w')
  case Nil
  then show ?case by simp
next
  case (Cons i ids)
  obtain r w1 where g: "getSession pf i w = (r, w1)" by (cases "getSession pf i w")
  obtain rs1 w2 where t: "getSession_times pf ids w1 = (rs1, w2)"
    by (cases "getSession_times pf ids w1")
  from Cons.prems g t have eq: "rs = r # rs1" "w' = w2" by auto
  note ih = Cons.IH [OF t]
  note gc = getSession_cases [OF g]
  from gc ih have st: "since w w2 = since w w1 @ since w1 w2" "trace w2 = trace w @ since w w2"
    using since_trans by blast+
  from gc show ?case
    unfolding eq st(1) using ih st(2)
    by auto
qed


lemma connectToBrowserSandbox_full:
  assumes "connectToBrowserSandbox pf i custom w = (r, w')"
  shows "(\<exists>e. resume_reply pf (trace w) i = Inl e \<and> r = Inl e
            \<and> w' = w\<lparr>trace := trace w @ [Resume i (Inl e)]\<rparr>)
       \<or> (\<exists>sb e. resume_reply pf (trace w) i = Inr sb
            \<and> createSession_reply pf (trace w @ [Resume i (Inr sb)]) sb = Inl e \<and> r = Inl e
            \<and> w' = w\<lparr>trace := trace w @ [Resume i (Inr sb), CreateSession sb (Inl e)]\<rparr>)
       \<or> (\<exists>sb s e. resume_reply pf (trace w) i = Inr sb
            \<and> createSession_reply pf (trace w @ [Resume i (Inr sb)]) sb = Inr s
            \<and> connect_reply pf (trace w @ [Resume i (Inr sb), CreateSession sb (Inr s)]) s
                = Inl e
            \<and> r = Inl e
            \<and> w' = (if connect_listens pf
                           (trace w @ [Resume i (Inr sb), CreateSession sb (Inr s)]) s
                     then onFocusChange custom w else w)
                    \<lparr>trace := trace w @ [Resume i (Inr sb), CreateSession sb (Inr s),
                       Open s (Inl e)]\<rparr>)
       \<or> (\<exists>sb s c. resume_reply pf (trace w) i = Inr sb
            \<and> createSession_reply pf (trace w @ [Resume i (Inr sb)]) sb = Inr s
            \<and> connect_reply pf (trace w @ [Resume i (Inr sb), CreateSession sb (Inr s)]) s
                = Inr c
            \<and> r = Inr (c, sb)
            \<and> w' = (if connect_listens pf
                           (trace w @ [Resume i (Inr sb), CreateSession sb (Inr s)]) s
                     then onFocusChange custom w else w)
                    \<lparr>trace := trace w @ [Resume i (Inr sb), CreateSession sb (Inr s),
                       Open s (Inr c)]\<rparr>)"
proof (cases "resume_reply pf (trace w) i")
  case (Inl e)
  with assms show ?thesis
    by (auto simp: connectToBrowserSandbox_def resume_def Let_def)
next
  case (Inr sb)
  note rs = Inr
  show ?thesis
  proof (cases "createSession_reply pf (trace w @ [Resume i (Inr sb)]) sb")
    case (Inl e)
    with assms rs show ?thesis
      by (auto simp: connectToBrowserSandbox_def resume_def createSession_def Let_def)
  next
    case (Inr s)
    with assms rs show ?thesis
      by (cases "connect_reply pf (trace w @ [Resume i (Inr sb), CreateSession sb (Inr s)]) s")
         (auto simp: connectToBrowserSandbox_def resume_def createSession_def
            sdk_connectToSandbox_def onFocusChange_def defaultOnFocusChange_def
            addEventListener_def Let_def split: option.splits)
  qed
qed

lemma trace_onFocusChange [simp]: "trace (onFocusChange custom w) = trace w"
  by (simp add: onFocusChange_def defaultOnFocusChange_def addEventListener_def Let_def
      split: option.splits)

lemma listeners_onFocusChange:
  "listeners (onFocusChange custom w) = listeners w
   \<or> listeners (onFocusChange custom w) = listeners w @ [nextListener w]"
  by (simp add: onFocusChange_def defaultOnFocusChange_def addEventListener_def Let_def
      split: option.splits)

lemma connectToSandbox_rejected:
  assumes "connectToSandbox (Some pf) (Some info) (st, w) = (Inl e, st', w')"
  shows "st' = st\<lparr>connectionError := Some (connectErrorMessage e), activeSandbox := None\<rparr>"
    and "connectToBrowserSandbox pf (info_id info) None w = (Inl e, w')"
  using assms
  by (auto simp: connectToSandbox_def Let_def split: prod.splits sum.splits)

lemma connectToSandbox_resolved:
  assumes "connectToSandbox (Some pf) (Some info) (st, w) = (Inr x, st', w')"
  shows "\<exists>c sb. x = Some c
           \<and> connectToBrowserSandbox pf (info_id info) None w = (Inr (c, sb), w')
           \<and> st' = st\<lparr>connectionError := None,
                      activeSandbox := Some \<lparr>sandbox = Some (withMetadata info sb),
                        client = Some c, isConnecting = False\<rparr>\<rparr>"
  using assms
  by (auto simp: connectToSandbox_def Let_def split: prod.splits sum.splits)

lemma connectErrorMessage_nonempty: "connectErrorMessage e \<noteq> []"
  by (cases e) (auto simp: websocketMessage_def sessionMessage_def)

lemma classification_of_connectErrorMessage:
  "classification_of (connectErrorMessage e) =
     (case e of
        ErrorObj m \<Rightarrow>
          if includes_str m ''WebSocket'' then TransportClass
          else if includes_str m ''session'' then SessionClass
          else UnknownClass
      | NonError mo \<Rightarrow> UnknownClass)"
  by (cases e) (auto simp: classification_of_def websocketMessage_def sessionMessage_def)

lemma rejected_calls:
  assumes "connectToBrowserSandbox pf i custom w = (Inl e, w')"
  shows "trace w' = trace w @ since w w'"
    and "length (filter is_Resume (since w w')) = 1"
    and "length (filter is_CreateSession (since w w')) \<le> 1"
    and "length (filter is_Open (since w w')) \<le> 1"
    and "rejection (last (since w w')) = Some e"
    and "\<not> list_ex is_Open (since w w') \<longrightarrow> listeners w' = listeners w"
    and "listeners w' = listeners w \<or> listeners w' = listeners w @ [nextListener w]"
  using connectToBrowserSandbox_full [OF assms] listeners_onFocusChange [of custom w]
  by (auto simp: since_def)

lemma connectToBrowserSandbox_resolved:
  assumes "connectToBrowserSandbox pf i custom w = (Inr (c, sb), w')"
  shows "\<exists>s. resume_reply pf (trace w) i = Inr sb
           \<and> createSession_reply pf (trace w @ [Resume i (Inr sb)]) sb = Inr s
           \<and> trace w' = trace w @ [Resume i (Inr sb), CreateSession sb (Inr s), Open s (Inr c)]"
  using connectToBrowserSandbox_full [OF assms] by auto

lemma disconnectFromSandbox_client:
  assumes "disconnectFromSandbox pf (Some a) (st, w) = (x, st', w')" and "client a = Some c"
  shows "x = None" and "st' = st\<lparr>activeSandbox := None, connectionError := None\<rparr>"
    and "trace w' = trace w @ [ClientDisconnect c (disconnect_reply pf (trace w) c)]"
  using assms
  by (auto simp: skip_stmt_def seq_stmt_def try_catch_def setActiveSandbox_def
      setConnectionError_def call_disconnect_def console_error_def try_disconnect_def
      disconnectFromSandbox_def client_disconnect_def drop_promise_def Let_def
      split: option.splits sum.splits promise.splits)

lemma connect_disconnect_connect:
  assumes k1: "connectToSandbox (Some pf) (Some info) (st, w) = (Inr (Some c1), st1, w1)"
    and k2: "disconnectFromSandbox pf (activeSandbox st1) (st1, w1) = (x, st2, w2)"
    and k3: "connectToSandbox (Some pf) (Some info) (st2, w2) = (Inr (Some c2), st3, w3)"
  shows "\<exists>sb1 s1 d sb2 s2.
           since w w3 =
             [Resume (info_id info) (Inr sb1), CreateSession sb1 (Inr s1), Open s1 (Inr c1),
              ClientDisconnect c1 d,
              Resume (info_id info) (Inr sb2), CreateSession sb2 (Inr s2), Open s2 (Inr c2)]
         \<and> createSession_reply pf (trace w2 @ [Resume (info_id info) (Inr sb2)]) sb2 = Inr s2
         \<and> (distinct (created_sessions (trace w3)) \<longrightarrow>
              s1 \<noteq> s2 \<and> s2 \<notin> set (created_sessions (trace w2)))"
proof -
  from connectToSandbox_resolved [OF k1] obtain sb1 where
    b1: "connectToBrowserSandbox pf (info_id info) None w = (Inr (c1, sb1), w1)"
    and a1: "activeSandbox st1 =
      Some \<lparr>sandbox = Some (withMetadata info sb1), client = Some c1, isConnecting = False\<rparr>"
    by auto
  from connectToBrowserSandbox_resolved [OF b1] obtain s1 where
    t1: "trace w1 = trace w @ [Resume (info_id info) (Inr sb1), CreateSession sb1 (Inr s1),
           Open s1 (Inr c1)]"
    by auto
  from k2 a1 have
    t2: "trace w2 = trace w1 @ [ClientDisconnect c1 (disconnect_reply pf (trace w1) c1)]"
    using disconnectFromSandbox_client(3) [of pf _ st1 w1 x st2 w2 c1] by simp
  from connectToSandbox_resolved [OF k3] obtain sb2 where
    b3: "connectToBrowserSandbox pf (info_id info) None w2 = (Inr (c2, sb2), w3)"
    by auto
  from connectToBrowserSandbox_resolved [OF b3] obtain s2 where
    c3: "createSession_reply pf (trace w2 @ [Resume (info_id info) (Inr sb2)]) sb2 = Inr s2"
    and t3: "trace w3 = trace w2 @ [Resume (info_id info) (Inr sb2), CreateSession sb2 (Inr s2),
           Open s2 (Inr c2)]"
    by auto
  from t1 t2 t3 have
    "since w w3 =
       [Resume (info_id info) (Inr sb1), CreateSession sb1 (Inr s1), Open s1 (Inr c1),
        ClientDisconnect c1 (disconnect_reply pf (trace w1) c1),
        Resume (info_id info) (Inr sb2), CreateSession sb2 (Inr s2), Open s2 (Inr c2)]"
    by (simp add: since_def)
  moreover from t1 t2 t3 have
    "distinct (created_sessions (trace w3)) \<longrightarrow>
       s1 \<noteq> s2 \<and> s2 \<notin> set (created_sessions (trace w2))"
    by auto
  ultimately show ?thesis using c3 by blast
qed

lemma all_resumes_resolved:
  "list_all resolved_Resume (filter is_Resume evs) \<Longrightarrow>
     length (filter resolved_Resume evs) = length (filter is_Resume evs)"
proof (induction evs)
  case Nil
  then show ?case by simp
next
  case (Cons ev evs)
  then show ?case by (cases ev) (auto split: if_splits)
qed

lemma getSession_times_sessions:
  assumes g: "getSession_times pf ids v = (rs, v')"
  shows "length (filter is_Resume (since v v')) = length ids
       \<and> length (filter is_CreateSession (since v v'))
           = length (filter resolved_Resume (since v v'))
       \<and> (list_all resolved_Resume (filter is_Resume (since v v'))
            \<longrightarrow> length (filter is_CreateSession (since v v')) = length ids)
       \<and> resolved rs = created_sessions (since v v')
       \<and> (distinct (created_sessions (trace v'))
            \<longrightarrow> distinct (resolved rs)
              \<and> set (resolved rs) \<inter> set (created_sessions (trace v)) = {})"
proof -
  note c = getSession_times_calls [OF g]
  from c have n1: "length (filter is_Resume (since v v')) = length ids" by simp
  from c have n2: "length (filter is_CreateSession (since v v'))
           = length (filter resolved_Resume (since v v'))" by simp
  from c have r: "resolved rs = created_sessions (since v v')" by simp
  have n3: "list_all resolved_Resume (filter is_Resume (since v v'))
            \<longrightarrow> length (filter is_CreateSession (since v v')) = length ids"
    using all_resumes_resolved [of "since v v'"] n1 n2 by simp
  from c have "trace v' = trace v @ since v v'" by simp
  then have "created_sessions (trace v')
               = created_sessions (trace v) @ created_sessions (since v v')"
    by (metis created_sessions_append)
  with r have d: "distinct (created_sessions (trace v'))
            \<longrightarrow> distinct (resolved rs)
              \<and> set (resolved rs) \<inter> set (created_sessions (trace v)) = {}"
    by auto
  from n1 n2 n3 r d show ?thesis by blast
qed

lemma fold_onVisibilityChange:
  "fold onVisibilityChange ns w
     = w\<lparr>trace := trace w @ map (\<lambda>n. Notify n (visibilityState w = Visible)) ns\<rparr>"
  by (induction ns arbitrary: w) (simp_all add: onVisibilityChange_def)

lemma visibilitychange_notifies:
  "visibilitychange v w
     = w\<lparr>visibilityState := v,
         trace := trace w @ map (\<lambda>n. Notify n (v = Visible)) (listeners w)\<rparr>"
  by (simp add: visibilitychange_def fold_onVisibilityChange)

lemma since_visibilitychange:
  "since w (visibilitychange v w) = map (\<lambda>n. Notify n (v = Visible)) (listeners w)"
  by (simp add: visibilitychange_notifies since_def)

lemma unsubscribe_removes_one:
  "distinct (listeners w) \<Longrightarrow>
     unsubscribe n w = w\<lparr>listeners := filter (\<lambda>m. m \<noteq> n) (listeners w)\<rparr>"
  by (simp add: unsubscribe_def removeEventListener_def distinct_remove1_removeAll
      removeAll_filter_not_eq) (metis (mono_tags, lifting) filter_cong)

text \<open>
  What \<^verbatim>\<open>disconnectFromSandbox\<close> does for every behaviour of \<^verbatim>\<open>client.disconnect()\<close>:
  no exception leaves it, both state fields are cleared, the client of the captured active
  sandbox is disconnected once, and a rejection of the returned promise is left unhandled.
\<close>

lemma disconnectFromSandbox_total:
  "disconnectFromSandbox pf captured (st, w) = (x, st', w') \<Longrightarrow>
     x = None
   \<and> activeSandbox st' = None
   \<and> connectionError st' = None
   \<and> (case captured of
        None \<Rightarrow> w' = w
      | Some a \<Rightarrow>
          (case client a of
             None \<Rightarrow> w' = w
           | Some c \<Rightarrow>
               since w w' = [ClientDisconnect c (disconnect_reply pf (trace w) c)]
             \<and> unhandledRejections w' =
                 unhandledRejections w @
                 (case disconnect_reply pf (trace w) c of
                    Inr (Rejects e) \<Rightarrow> [e]
                  | _ \<Rightarrow> [])))
   \<and> disconnectFromSandbox pf (activeSandbox st') (st', w') = (None, st', w')
   \<and> fst (disconnectFromSandbox pf captured (st', w')) = None
   \<and> fst (snd (disconnectFromSandbox pf captured (st', w'))) = st'"
  by (auto simp: skip_stmt_def seq_stmt_def try_catch_def setActiveSandbox_def
      setConnectionError_def call_disconnect_def console_error_def try_disconnect_def
      disconnectFromSandbox_def client_disconnect_def drop_promise_def Let_def since_def
      split: option.splits sum.splits promise.splits)

subsection \<open>Concrete runs\<close>

lemma healthy_connect:
  "connectToSandbox (Some healthy) (Some demoInfo) (idle, world0)
     = (Inr (Some (Client 0)), connectedState, connectedWorld)"
  by (simp add: connectToSandbox_def connectToBrowserSandbox_def resume_def
      createSession_def sdk_connectToSandbox_def onFocusChange_def defaultOnFocusChange_def
      addEventListener_def withMetadata_def connecting_def Let_def
      healthy_def world0_def idle_def demoInfo_def resumedSandbox_def connectedState_def
      connectedWorld_def)

lemma healthy_browser_connect:
  "connectToBrowserSandbox healthy ''abc123'' None world0
     = (Inr (Client 0, resumedSandbox ''abc123''), connectedWorld)"
  by (simp add: connectToBrowserSandbox_def resume_def createSession_def
      sdk_connectToSandbox_def onFocusChange_def defaultOnFocusChange_def addEventListener_def
      Let_def
      healthy_def world0_def resumedSandbox_def connectedWorld_def)

lemma healthy_disconnect:
  "disconnectFromSandbox healthy (activeSandbox connectedState) (connectedState, connectedWorld)
     = (None, idle, disconnectedWorld)"
  by (simp add: disconnectFromSandbox_def try_disconnect_def try_catch_def seq_stmt_def
      skip_stmt_def call_disconnect_def console_error_def setActiveSandbox_def
      setConnectionError_def client_disconnect_def drop_promise_def Let_def
      healthy_def idle_def connectedState_def connectedWorld_def disconnectedWorld_def)

lemma healthy_reconnect:
  "connectToSandbox (Some healthy) (Some demoInfo) (idle, disconnectedWorld)
     = (Inr (Some (Client 1)), reconnectedState, reconnectedWorld)"
  by (simp add: connectToSandbox_def connectToBrowserSandbox_def resume_def
      createSession_def sdk_connectToSandbox_def onFocusChange_def defaultOnFocusChange_def
      addEventListener_def withMetadata_def connecting_def Let_def
      healthy_def idle_def demoInfo_def resumedSandbox_def connectedWorld_def
      disconnectedWorld_def reconnectedState_def reconnectedWorld_def)

lemma healthy_supplier_twice:
  "getSession_times healthy [''abc123'', ''abc123''] connectedWorld
     = ([Inr (Session 1), Inr (Session 2)], suppliedWorld)"
  by (simp add: getSession_def resume_def createSession_def Let_def healthy_def
      resumedSandbox_def connectedWorld_def suppliedWorld_def)

lemma healthy_supplier_once:
  "getSession healthy ''abc123'' connectedWorld
     = (Inr (Session 1),
        connectedWorld\<lparr>trace := trace connectedWorld @
          [Resume ''abc123'' (Inr (resumedSandbox ''abc123'')),
           CreateSession (resumedSandbox ''abc123'') (Inr (Session 1))]\<rparr>)"
  by (simp add: getSession_def resume_def createSession_def Let_def healthy_def
      resumedSandbox_def connectedWorld_def)

lemma open_rejected:
  "connectToSandbox (Some (open_fails e)) (Some demoInfo) (idle, world0)
     = (Inl e, \<lparr>activeSandbox = None, connectionError = Some (connectErrorMessage e)\<rparr>,
        openRejectedWorld e)"
  by (simp add: connectToSandbox_def connectToBrowserSandbox_def resume_def
      createSession_def sdk_connectToSandbox_def onFocusChange_def defaultOnFocusChange_def
      addEventListener_def withMetadata_def connecting_def Let_def
      open_fails_def healthy_def world0_def idle_def demoInfo_def resumedSandbox_def
      openRejectedWorld_def)

lemma createSession_rejected:
  "connectToSandbox (Some (createSession_fails e)) (Some demoInfo) (idle, world0)
     = (Inl e, \<lparr>activeSandbox = None, connectionError = Some (connectErrorMessage e)\<rparr>,
        world0\<lparr>trace := [Resume ''abc123'' (Inr (resumedSandbox ''abc123'')),
          CreateSession (resumedSandbox ''abc123'') (Inl e)]\<rparr>)"
  by (simp add: connectToSandbox_def connectToBrowserSandbox_def resume_def
      createSession_def sdk_connectToSandbox_def onFocusChange_def defaultOnFocusChange_def
      addEventListener_def withMetadata_def connecting_def Let_def
      createSession_fails_def healthy_def world0_def idle_def demoInfo_def resumedSandbox_def)

lemma resume_rejected:
  "connectToSandbox (Some (resume_fails e)) (Some demoInfo) (idle, world0)
     = (Inl e, \<lparr>activeSandbox = None, connectionError = Some (connectErrorMessage e)\<rparr>,
        world0\<lparr>trace := [Resume ''abc123'' (Inl e)]\<rparr>)"
  by (simp add: connectToSandbox_def connectToBrowserSandbox_def resume_def
      createSession_def sdk_connectToSandbox_def onFocusChange_def defaultOnFocusChange_def
      addEventListener_def withMetadata_def connecting_def Let_def
      resume_fails_def healthy_def world0_def idle_def demoInfo_def)

section \<open>The claims\<close>

subsection \<open>C1: sessions are never reused\<close>

text \<open>
  Claim C1. No session is kept from one use to the next.

  Connect, disconnect, connect: when both connects succeed, the calls made are exactly
  resume, create session, open, client disconnect, resume, create session, open. The
  second open is given the session that the second \<^verbatim>\<open>createSession\<close> call returned, asked of
  the platform after the first connection was torn down; when the platform never issues a
  session twice, it differs from the first and from every session issued before.

  The session supplier called \<open>length ids\<close> times: it makes \<open>length ids\<close> resume calls
  and one \<^verbatim>\<open>createSession\<close> call for every resume that resolved, so \<open>length ids\<close> of
  them when every resume resolves. The sessions it returns are, in order, exactly the
  sessions the platform issued during these calls: none comes from an earlier invocation.
\<close>

theorem C1_sessions_always_new:
  "(connectToSandbox (Some pf) (Some sandboxInfo) (st, w) = (Inr (Some c1), st1, w1)
      \<and> disconnectFromSandbox pf (activeSandbox st1) (st1, w1) = (x, st2, w2)
      \<and> connectToSandbox (Some pf) (Some sandboxInfo) (st2, w2) = (Inr (Some c2), st3, w3)
    \<longrightarrow> (\<exists>sb1 s1 d sb2 s2.
           since w w3 =
             [Resume (info_id sandboxInfo) (Inr sb1), CreateSession sb1 (Inr s1),
              Open s1 (Inr c1),
              ClientDisconnect c1 d,
              Resume (info_id sandboxInfo) (Inr sb2), CreateSession sb2 (Inr s2),
              Open s2 (Inr c2)]
         \<and> createSession_reply pf (trace w2 @ [Resume (info_id sandboxInfo) (Inr sb2)]) sb2
             = Inr s2
         \<and> (distinct (created_sessions (trace w3)) \<longrightarrow>
              s1 \<noteq> s2 \<and> s2 \<notin> set (created_sessions (trace w2)))))
   \<and> (getSession_times pf ids v = (rs, v')
    \<longrightarrow> length (filter is_Resume (since v v')) = length ids
       \<and> length (filter is_CreateSession (since v v'))
           = length (filter resolved_Resume (since v v'))
       \<and> (list_all resolved_Resume (filter is_Resume (since v v'))
            \<longrightarrow> length (filter is_CreateSession (since v v')) = length ids)
       \<and> resolved rs = created_sessions (since v v')
       \<and> (distinct (created_sessions (trace v'))
            \<longrightarrow> distinct (resolved rs)
              \<and> set (resolved rs) \<inter> set (created_sessions (trace v)) = {}))"
proof (rule conjI)
  show "connectToSandbox (Some pf) (Some sandboxInfo) (st, w) = (Inr (Some c1), st1, w1)
      \<and> disconnectFromSandbox pf (activeSandbox st1) (st1, w1) = (x, st2, w2)
      \<and> connectToSandbox (Some pf) (Some sandboxInfo) (st2, w2) = (Inr (Some c2), st3, w3)
    \<longrightarrow> (\<exists>sb1 s1 d sb2 s2.
           since w w3 =
             [Resume (info_id sandboxInfo) (Inr sb1), CreateSession sb1 (Inr s1),
              Open s1 (Inr c1),
              ClientDisconnect c1 d,
              Resume (info_id sandboxInfo) (Inr sb2), CreateSession sb2 (Inr s2),
              Open s2 (Inr c2)]
         \<and> createSession_reply pf (trace w2 @ [Resume (info_id sandboxInfo) (Inr sb2)]) sb2
             = Inr s2
         \<and> (distinct (created_sessions (trace w3)) \<longrightarrow>
              s1 \<noteq> s2 \<and> s2 \<notin> set (created_sessions (trace w2))))"
    using connect_disconnect_connect [of pf sandboxInfo st w c1 st1 w1 x st2 w2 c2 st3 w3]
    by blast
next
  show "getSession_times pf ids v = (rs, v')
    \<longrightarrow> length (filter is_Resume (since v v')) = length ids
       \<and> length (filter is_CreateSession (since v v'))
           = length (filter resolved_Resume (since v v'))
       \<and> (list_all resolved_Resume (filter is_Resume (since v v'))
            \<longrightarrow> length (filter is_CreateSession (since v v')) = length ids)
       \<and> resolved rs = created_sessions (since v v')
       \<and> (distinct (created_sessions (trace v'))
            \<longrightarrow> distinct (resolved rs)
              \<and> set (resolved rs) \<inter> set (created_sessions (trace v)) = {})"
    using getSession_times_sessions [of pf ids v rs v'] by blast
qed

text \<open>
  On the platform where every call succeeds: sessions 0 and 1 for the two connects, and
  sessions 1 and 2 for two supplier calls on the first connection.
\<close>

theorem C1_sessions_always_new_witness:
  "connectToSandbox (Some healthy) (Some demoInfo) (idle, world0)
     = (Inr (Some (Client 0)), connectedState, connectedWorld)
   \<and> disconnectFromSandbox healthy (activeSandbox connectedState)
       (connectedState, connectedWorld) = (None, idle, disconnectedWorld)
   \<and> connectToSandbox (Some healthy) (Some demoInfo) (idle, disconnectedWorld)
     = (Inr (Some (Client 1)), reconnectedState, reconnectedWorld)
   \<and> since world0 reconnectedWorld =
       [Resume ''abc123'' (Inr (resumedSandbox ''abc123'')),
        CreateSession (resumedSandbox ''abc123'') (Inr (Session 0)),
        Open (Session 0) (Inr (Client 0)),
        ClientDisconnect (Client 0) (Inr Resolves),
        Resume ''abc123'' (Inr (resumedSandbox ''abc123'')),
        CreateSession (resumedSandbox ''abc123'') (Inr (Session 1)),
        Open (Session 1) (Inr (Client 1))]
   \<and> distinct (created_sessions (trace reconnectedWorld))
   \<and> Session 0 \<noteq> Session 1
   \<and> getSession_times healthy [''abc123'', ''abc123''] connectedWorld
     = ([Inr (Session 1), Inr (Session 2)], suppliedWorld)
   \<and> length (filter is_Resume (since connectedWorld suppliedWorld)) = 2
   \<and> list_all resolved_Resume (filter is_Resume (since connectedWorld suppliedWorld))
   \<and> length (filter is_CreateSession (since connectedWorld suppliedWorld)) = 2
   \<and> resolved [Inr (Session 1), Inr (Session 2) :: thrown + SandboxSession]
       = created_sessions (since connectedWorld suppliedWorld)
   \<and> distinct (created_sessions (trace suppliedWorld))
   \<and> set [Session 1, Session 2] \<inter> set (created_sessions (trace connectedWorld)) = {}"
  using C1_sessions_always_new [where pf = healthy and sandboxInfo = demoInfo and st = idle
      and w = world0 and ?c1.0 = "Client 0" and ?st1.0 = connectedState
      and ?w1.0 = connectedWorld and x = None and ?st2.0 = idle and ?w2.0 = disconnectedWorld
      and ?c2.0 = "Client 1" and ?st3.0 = reconnectedState and ?w3.0 = reconnectedWorld
      and ids = "[''abc123'', ''abc123'']" and v = connectedWorld
      and rs = "[Inr (Session 1), Inr (Session 2)]" and v' = suppliedWorld]
    healthy_connect healthy_disconnect healthy_reconnect healthy_supplier_twice
  by (simp add: since_def connectedWorld_def reconnectedWorld_def suppliedWorld_def
      world0_def)

subsection \<open>C2: the three steps run in order\<close>

text \<open>
  Claim C2. One invocation of \<^verbatim>\<open>connectToBrowserSandbox\<close> only appends to the trace, and what
  it appends is an initial part of resume, create session, open, in this order: the
  session is created on the handle that the resume returned, and the transport is opened
  with the session that the creation returned. A step that rejects ends the invocation
  with that rejection.
\<close>

theorem C2_steps_strictly_sequential:
  "connectToBrowserSandbox pf sandboxId custom w = (r, w') \<Longrightarrow>
     trace w' = trace w @ since w w' \<and>
     ((\<exists>e. r = Inl e \<and> since w w' = [Resume sandboxId (Inl e)])
      \<or> (\<exists>sb e. r = Inl e
            \<and> since w w' = [Resume sandboxId (Inr sb), CreateSession sb (Inl e)])
      \<or> (\<exists>sb s e. r = Inl e
            \<and> since w w' = [Resume sandboxId (Inr sb), CreateSession sb (Inr s), Open s (Inl e)])
      \<or> (\<exists>sb s c. r = Inr (c, sb)
            \<and> since w w' = [Resume sandboxId (Inr sb), CreateSession sb (Inr s), Open s (Inr c)]))"
  using connectToBrowserSandbox_cases connectToBrowserSandbox_trace by blast

theorem C2_steps_strictly_sequential_witness:
  "connectToBrowserSandbox healthy ''abc123'' None world0
     = (Inr (Client 0, resumedSandbox ''abc123''), connectedWorld)
   \<and> trace connectedWorld = trace world0 @ since world0 connectedWorld
   \<and> since world0 connectedWorld =
       [Resume ''abc123'' (Inr (resumedSandbox ''abc123'')),
        CreateSession (resumedSandbox ''abc123'') (Inr (Session 0)),
        Open (Session 0) (Inr (Client 0))]"
  using C2_steps_strictly_sequential [OF healthy_browser_connect] healthy_browser_connect
  by (simp add: since_def connectedWorld_def world0_def)

subsection \<open>C3: how a failure is classified\<close>

text \<open>
  Claim C3 says that the classification of a failed connect follows the step that failed.
  It does not: a resume that rejects with \<^verbatim>\<open>Error('Sandbox not found')\<close> leaves the message
  \<^verbatim>\<open>Connection failed: Sandbox not found\<close>, which is not the session message, and a
  transport open that rejects with \<^verbatim>\<open>Error('invalid session token')\<close> leaves the session
  message.
\<close>

theorem C3_classified_by_step_counterexample:
  "connectToSandbox (Some (resume_fails (ErrorObj ''Sandbox not found'')))
       (Some demoInfo) (idle, world0)
     = (Inl (ErrorObj ''Sandbox not found''),
        \<lparr>activeSandbox = None,
         connectionError = Some ''Connection failed: Sandbox not found''\<rparr>,
        world0\<lparr>trace := [Resume ''abc123'' (Inl (ErrorObj ''Sandbox not found''))]\<rparr>)
   \<and> failed_step (Resume ''abc123'' (Inl (ErrorObj ''Sandbox not found''))) = Some ResumeStep
   \<and> spec_classification ResumeStep = SessionClass
   \<and> classification_of ''Connection failed: Sandbox not found'' = UnknownClass
   \<and> classification_of ''Connection failed: Sandbox not found''
       \<noteq> spec_classification ResumeStep
   \<and> connectToSandbox (Some (open_fails (ErrorObj ''invalid session token'')))
       (Some demoInfo) (idle, world0)
     = (Inl (ErrorObj ''invalid session token''),
        \<lparr>activeSandbox = None, connectionError = Some sessionMessage\<rparr>,
        openRejectedWorld (ErrorObj ''invalid session token''))
   \<and> failed_step (Open (Session 0) (Inl (ErrorObj ''invalid session token''))) = Some OpenStep
   \<and> spec_classification OpenStep = TransportClass
   \<and> classification_of sessionMessage = SessionClass
   \<and> classification_of sessionMessage \<noteq> spec_classification OpenStep"
  by (simp add: resume_rejected open_rejected classification_of_def websocketMessage_def
      sessionMessage_def)

text \<open>
  Claim C3, amended. A failed connect rethrows the value that the failing step rejected
  with and stores the message computed from that value alone: an \<^verbatim>\<open>Error\<close> whose message
  contains \<^verbatim>\<open>WebSocket\<close> gives the transport message; otherwise one whose message contains
  \<^verbatim>\<open>session\<close> gives the session message; every other value is unclassified. The step
  that failed plays no part.
\<close>

theorem C3_message_chosen_by_text:
  "connectToSandbox (Some pf) (Some sandboxInfo) (st, w) = (Inl e, st', w') \<Longrightarrow>
     rejection (last (since w w')) = Some e
   \<and> connectionError st' = Some (connectErrorMessage e)
   \<and> classification_of (connectErrorMessage e) =
       (case e of
          ErrorObj m \<Rightarrow>
            if includes_str m ''WebSocket'' then TransportClass
            else if includes_str m ''session'' then SessionClass
            else UnknownClass
        | NonError mo \<Rightarrow> UnknownClass)"
  using connectToSandbox_rejected [of pf sandboxInfo st w e st' w']
    rejected_calls [of pf "info_id sandboxInfo" None w e w']
    classification_of_connectErrorMessage [of e]
  by simp

theorem C3_message_chosen_by_text_witness:
  "connectToSandbox (Some (createSession_fails (ErrorObj ''Could not create session'')))
       (Some demoInfo) (idle, world0)
     = (Inl (ErrorObj ''Could not create session''),
        \<lparr>activeSandbox = None, connectionError = Some sessionMessage\<rparr>,
        world0\<lparr>trace := [Resume ''abc123'' (Inr (resumedSandbox ''abc123'')),
          CreateSession (resumedSandbox ''abc123'')
            (Inl (ErrorObj ''Could not create session''))]\<rparr>)
   \<and> rejection (CreateSession (resumedSandbox ''abc123'')
         (Inl (ErrorObj ''Could not create session'')))
       = Some (ErrorObj ''Could not create session'')
   \<and> connectErrorMessage (ErrorObj ''Could not create session'') = sessionMessage
   \<and> classification_of sessionMessage = SessionClass"
  using C3_message_chosen_by_text [OF createSession_rejected
      [of "ErrorObj ''Could not create session''"]]
    createSession_rejected [of "ErrorObj ''Could not create session''"]
  by (simp add: classification_of_def websocketMessage_def sessionMessage_def)

subsection \<open>C4: metadata on the resolved handle\<close>

text \<open>
  Claim C4 says that the listing's metadata is copied onto the resolved handle after every
  successful resume, the reconnects of the session supplier included. After a connect with
  the title \<^verbatim>\<open>Demo\<close>, a supplier call resumes the sandbox again and creates the session on
  the handle as the resume returned it: its title is still absent.
\<close>

theorem C4_copied_on_every_resume_counterexample:
  "connectToSandbox (Some healthy) (Some demoInfo) (idle, world0)
     = (Inr (Some (Client 0)), connectedState, connectedWorld)
   \<and> getSession healthy ''abc123'' connectedWorld
     = (Inr (Session 1),
        connectedWorld\<lparr>trace := trace connectedWorld @
          [Resume ''abc123'' (Inr (resumedSandbox ''abc123'')),
           CreateSession (resumedSandbox ''abc123'') (Inr (Session 1))]\<rparr>)
   \<and> info_title demoInfo = Some ''Demo''
   \<and> title (resumedSandbox ''abc123'') = None"
proof -
  have "info_title demoInfo = Some ''Demo''" and "title (resumedSandbox ''abc123'') = None"
    by (simp_all add: demoInfo_def resumedSandbox_def)
  with healthy_connect healthy_supplier_once show ?thesis by simp
qed

text \<open>
  Claim C4, amended. When the hook's connect succeeds, the handle stored as the active
  sandbox is the handle that the resume returned with the five fields \<open>title\<close>,
  \<open>privacy\<close>, \<open>createdAt\<close>, \<open>updatedAt\<close> and \<open>tags\<close> taken from the caller's listing
  entry. A successful call of the session supplier creates the session on the handle
  exactly as the resume returned it; nothing is copied onto it.
\<close>

theorem C4_metadata_copied_on_connect:
  "(connectToSandbox (Some pf) (Some sandboxInfo) (st, w) = (Inr (Some c), st', w')
    \<longrightarrow> (\<exists>sb. resume_reply pf (trace w) (info_id sandboxInfo) = Inr sb
            \<and> activeSandbox st' =
                Some \<lparr>sandbox = Some (withMetadata sandboxInfo sb), client = Some c,
                      isConnecting = False\<rparr>
            \<and> sandbox_id (withMetadata sandboxInfo sb) = sandbox_id sb
            \<and> title (withMetadata sandboxInfo sb) = info_title sandboxInfo
            \<and> privacy (withMetadata sandboxInfo sb) = info_privacy sandboxInfo
            \<and> createdAt (withMetadata sandboxInfo sb) = info_createdAt sandboxInfo
            \<and> updatedAt (withMetadata sandboxInfo sb) = info_updatedAt sandboxInfo
            \<and> tags (withMetadata sandboxInfo sb) = info_tags sandboxInfo))
   \<and> (getSession pf i v = (Inr s, v')
    \<longrightarrow> (\<exists>sb. resume_reply pf (trace v) i = Inr sb
            \<and> since v v' = [Resume i (Inr sb), CreateSession sb (Inr s)]))"
proof (intro conjI impI)
  assume k: "connectToSandbox (Some pf) (Some sandboxInfo) (st, w) = (Inr (Some c), st', w')"
  from connectToSandbox_resolved [OF k] obtain sb where
    b: "connectToBrowserSandbox pf (info_id sandboxInfo) None w = (Inr (c, sb), w')"
    and a: "activeSandbox st' =
      Some \<lparr>sandbox = Some (withMetadata sandboxInfo sb), client = Some c,
            isConnecting = False\<rparr>"
    by auto
  from connectToBrowserSandbox_resolved [OF b]
  have "resume_reply pf (trace w) (info_id sandboxInfo) = Inr sb" by auto
  with a show "\<exists>sb. resume_reply pf (trace w) (info_id sandboxInfo) = Inr sb
            \<and> activeSandbox st' =
                Some \<lparr>sandbox = Some (withMetadata sandboxInfo sb), client = Some c,
                      isConnecting = False\<rparr>
            \<and> sandbox_id (withMetadata sandboxInfo sb) = sandbox_id sb
            \<and> title (withMetadata sandboxInfo sb) = info_title sandboxInfo
            \<and> privacy (withMetadata sandboxInfo sb) = info_privacy sandboxInfo
            \<and> createdAt (withMetadata sandboxInfo sb) = info_createdAt sandboxInfo
            \<and> updatedAt (withMetadata sandboxInfo sb) = info_updatedAt sandboxInfo
            \<and> tags (withMetadata sandboxInfo sb) = info_tags sandboxInfo"
    by (auto simp: withMetadata_def)
next
  assume "getSession pf i v = (Inr s, v')"
  from getSession_cases [OF this]
  show "\<exists>sb. resume_reply pf (trace v) i = Inr sb
            \<and> since v v' = [Resume i (Inr sb), CreateSession sb (Inr s)]"
    by auto
qed

theorem C4_metadata_copied_on_connect_witness:
  "connectToSandbox (Some healthy) (Some demoInfo) (idle, world0)
     = (Inr (Some (Client 0)), connectedState, connectedWorld)
   \<and> resume_reply healthy (trace world0) (info_id demoInfo) = Inr (resumedSandbox ''abc123'')
   \<and> title (resumedSandbox ''abc123'') = None
   \<and> activeSandbox connectedState =
       Some \<lparr>sandbox = Some (withMetadata demoInfo (resumedSandbox ''abc123'')),
             client = Some (Client 0), isConnecting = False\<rparr>
   \<and> title (withMetadata demoInfo (resumedSandbox ''abc123'')) = Some ''Demo''
   \<and> getSession healthy ''abc123'' connectedWorld = (Inr (Session 1),
        connectedWorld\<lparr>trace := trace connectedWorld @
          [Resume ''abc123'' (Inr (resumedSandbox ''abc123'')),
           CreateSession (resumedSandbox ''abc123'') (Inr (Session 1))]\<rparr>)
   \<and> resume_reply healthy (trace connectedWorld) ''abc123'' = Inr (resumedSandbox ''abc123'')"
  using C4_metadata_copied_on_connect [where pf = healthy and sandboxInfo = demoInfo
      and st = idle and w = world0 and c = "Client 0" and st' = connectedState
      and w' = connectedWorld and i = "''abc123''" and v = connectedWorld
      and s = "Session 1"
      and v' = "connectedWorld\<lparr>trace := trace connectedWorld @
          [Resume ''abc123'' (Inr (resumedSandbox ''abc123'')),
           CreateSession (resumedSandbox ''abc123'') (Inr (Session 1))]\<rparr>"]
    healthy_connect healthy_supplier_once
  by (simp add: withMetadata_def connectedState_def connectedWorld_def healthy_def
      demoInfo_def resumedSandbox_def world0_def)

subsection \<open>C5: state left by a failed connect\<close>



subsection \<open>C6: no automatic retry\<close>

text \<open>
  Claim C6. A rejected connect has made one resume call, at most one
  \<^verbatim>\<open>createSession\<close> call and at most one open; the last call made is the one that
  rejected, the value it rejected with is rethrown to the caller, and the connection error
  is set to the (non-empty) message of that value.
\<close>

theorem C6_no_automatic_retry:
  "connectToSandbox (Some pf) (Some sandboxInfo) (st, w) = (Inl e, st', w') \<Longrightarrow>
     trace w' = trace w @ since w w'
   \<and> length (filter is_Resume (since w w')) = 1
   \<and> length (filter is_CreateSession (since w w')) \<le> 1
   \<and> length (filter is_Open (since w w')) \<le> 1
   \<and> rejection (last (since w w')) = Some e
   \<and> connectionError st' = Some (connectErrorMessage e)
   \<and> connectErrorMessage e \<noteq> []"
  using connectToSandbox_rejected [of pf sandboxInfo st w e st' w']
    rejected_calls [of pf "info_id sandboxInfo" None w e w'] connectErrorMessage_nonempty [of e]
  by simp

theorem C6_no_automatic_retry_witness:
  "connectToSandbox (Some (open_fails (ErrorObj ''WebSocket handshake failed'')))
       (Some demoInfo) (idle, world0)
     = (Inl (ErrorObj ''WebSocket handshake failed''),
        \<lparr>activeSandbox = None, connectionError = Some websocketMessage\<rparr>,
        openRejectedWorld (ErrorObj ''WebSocket handshake failed''))
   \<and> since world0 (openRejectedWorld (ErrorObj ''WebSocket handshake failed'')) =
       [Resume ''abc123'' (Inr (resumedSandbox ''abc123'')),
        CreateSession (resumedSandbox ''abc123'') (Inr (Session 0)),
        Open (Session 0) (Inl (ErrorObj ''WebSocket handshake failed''))]
   \<and> length (filter is_Resume
         (since world0 (openRejectedWorld (ErrorObj ''WebSocket handshake failed'')))) = 1
   \<and> length (filter is_Open
         (since world0 (openRejectedWorld (ErrorObj ''WebSocket handshake failed'')))) = 1
   \<and> websocketMessage \<noteq> []"
  using C6_no_automatic_retry [OF open_rejected [of "ErrorObj ''WebSocket handshake failed''"]]
    open_rejected [of "ErrorObj ''WebSocket handshake failed''"]
  by (simp add: since_def world0_def openRejectedWorld_def websocketMessage_def)

subsection \<open>C7: disconnect\<close>

text \<open>
  Claim C7 says that \<^verbatim>\<open>disconnectFromSandbox\<close> swallows any teardown error of
  \<^verbatim>\<open>client.disconnect()\<close>. The call sits in a \<^verbatim>\<open>try\<close> block but is not awaited, so the
  \<^verbatim>\<open>catch\<close> sees only an exception thrown at the call. When \<^verbatim>\<open>client.disconnect()\<close>
  returns a promise that rejects with \<^verbatim>\<open>Error('already closed')\<close>, the function returns
  normally and clears the state, and the rejection is left unhandled. The same error
  thrown at the call is caught.
\<close>

theorem C7_rejected_disconnect_left_unhandled:
  "disconnectFromSandbox (disconnect_rejects (ErrorObj ''already closed''))
       (activeSandbox connectedState) (connectedState, connectedWorld)
     = (None, idle,
        connectedWorld\<lparr>trace := trace connectedWorld
            @ [ClientDisconnect (Client 0) (Inr (Rejects (ErrorObj ''already closed'')))],
          unhandledRejections := [ErrorObj ''already closed'']\<rparr>)
   \<and> disconnectFromSandbox (disconnect_throws (ErrorObj ''already closed''))
       (activeSandbox connectedState) (connectedState, connectedWorld)
     = (None, idle,
        connectedWorld\<lparr>trace := trace connectedWorld
            @ [ClientDisconnect (Client 0) (Inl (ErrorObj ''already closed''))],
          unhandledRejections := []\<rparr>)"
  by (simp add: disconnectFromSandbox_def try_disconnect_def try_catch_def seq_stmt_def
      skip_stmt_def call_disconnect_def console_error_def setActiveSandbox_def
      setConnectionError_def client_disconnect_def drop_promise_def Let_def
      disconnect_rejects_def disconnect_throws_def healthy_def idle_def connectedState_def
      connectedWorld_def)

subsection \<open>C8: the default visibility trigger\<close>

text \<open>
  Claim C8. A connect without a caller-supplied \<^verbatim>\<open>onFocusChange\<close> (the hook's connect
  never supplies one) that succeeds has opened the transport as its last call. When the
  transport called the \<^verbatim>\<open>onFocusChange\<close> it was given, the document has exactly one new
  listener, registered last, and no caller-supplied function was called; a change to
  visible then calls \<^verbatim>\<open>notify(true)\<close> for it, after the listeners that were there
  before. Every dispatch of \<^verbatim>\<open>visibilitychange\<close>, in any later world, calls
  \<^verbatim>\<open>notify\<close> once for each registered listener, with \<^verbatim>\<open>true\<close> exactly when the
  document has become visible. The function returned by the registration removes this
  listener wherever it stands among the document's listeners, and leaves every other
  listener and the rest of the world as they are. With a caller-supplied function the
  document gets no listener.
\<close>

theorem C8_default_visibility_trigger:
  "(\<forall>m \<in> set (listeners w). m < nextListener w) \<Longrightarrow>
   connectToBrowserSandbox pf sandboxId None w = (Inr (c, sb), w')
     \<or> connectToSandbox (Some pf) (Some sandboxInfo) (st, w) = (Inr (Some c), st', w') \<Longrightarrow>
   \<exists>s. last (trace w') = Open s (Inr c)
     \<and> (\<not> connect_listens pf (butlast (trace w')) s \<longrightarrow> listeners w' = listeners w)
     \<and> (connect_listens pf (butlast (trace w')) s \<longrightarrow>
           listeners w' = listeners w @ [nextListener w]
         \<and> nextListener w \<notin> set (listeners w)
         \<and> hookCalls w' = hookCalls w
         \<and> since w' (visibilitychange Visible w')
             = map (\<lambda>m. Notify m True) (listeners w) @ [Notify (nextListener w) True]
         \<and> listeners (unsubscribe (nextListener w) w') = listeners w)
     \<and> (\<forall>w2 v. since w2 (visibilitychange v w2)
           = map (\<lambda>m. Notify m (v = Visible)) (listeners w2))
     \<and> (\<forall>w2. distinct (listeners w2) \<longrightarrow>
           unsubscribe (nextListener w) w2
             = w2\<lparr>listeners := filter (\<lambda>m. m \<noteq> nextListener w) (listeners w2)\<rparr>)
     \<and> (\<forall>h r2 w2. connectToBrowserSandbox pf sandboxId (Some h) w = (r2, w2) \<longrightarrow>
           listeners w2 = listeners w)"
proof -
  assume wf: "\<forall>m \<in> set (listeners w). m < nextListener w"
    and k: "connectToBrowserSandbox pf sandboxId None w = (Inr (c, sb), w')
      \<or> connectToSandbox (Some pf) (Some sandboxInfo) (st, w) = (Inr (Some c), st', w')"
  from k obtain i sb' where
    b: "connectToBrowserSandbox pf i None w = (Inr (c, sb'), w')"
    using connectToSandbox_resolved [of pf sandboxInfo st w "Some c" st' w'] by auto
  from wf have fresh: "nextListener w \<notin> set (listeners w)" by auto
  from connectToBrowserSandbox_full [OF b] obtain s where
    w': "w' = (if connect_listens pf
                   (trace w @ [Resume i (Inr sb'), CreateSession sb' (Inr s)]) s
               then onFocusChange None w else w)
              \<lparr>trace := trace w @ [Resume i (Inr sb'), CreateSession sb' (Inr s),
                 Open s (Inr c)]\<rparr>"
    by auto
  then have t: "trace w' = trace w @ [Resume i (Inr sb'), CreateSession sb' (Inr s),
      Open s (Inr c)]"
    by simp
  then have la: "last (trace w') = Open s (Inr c)"
    and bl: "butlast (trace w') = trace w @ [Resume i (Inr sb'), CreateSession sb' (Inr s)]"
    by (simp_all add: butlast_append)
  from w' bl have quiet: "\<not> connect_listens pf (butlast (trace w')) s
      \<longrightarrow> listeners w' = listeners w"
    by simp
  have loud: "connect_listens pf (butlast (trace w')) s \<longrightarrow>
           listeners w' = listeners w @ [nextListener w]
         \<and> nextListener w \<notin> set (listeners w)
         \<and> hookCalls w' = hookCalls w
         \<and> since w' (visibilitychange Visible w')
             = map (\<lambda>m. Notify m True) (listeners w) @ [Notify (nextListener w) True]
         \<and> listeners (unsubscribe (nextListener w) w') = listeners w"
  proof
    assume "connect_listens pf (butlast (trace w')) s"
    with w' bl fresh have l: "listeners w' = listeners w @ [nextListener w]"
      and h: "hookCalls w' = hookCalls w"
      by (simp_all add: onFocusChange_def defaultOnFocusChange_def addEventListener_def
          Let_def)
    from l fresh show "listeners w' = listeners w @ [nextListener w]
         \<and> nextListener w \<notin> set (listeners w)
         \<and> hookCalls w' = hookCalls w
         \<and> since w' (visibilitychange Visible w')
             = map (\<lambda>m. Notify m True) (listeners w) @ [Notify (nextListener w) True]
         \<and> listeners (unsubscribe (nextListener w) w') = listeners w"
      using h
      by (simp add: since_visibilitychange unsubscribe_def removeEventListener_def
          remove1_append)
  qed
  have custom: "\<forall>h r2 w2. connectToBrowserSandbox pf sandboxId (Some h) w = (r2, w2)
      \<longrightarrow> listeners w2 = listeners w"
  proof (intro allI impI)
    fix h r2 w2
    assume "connectToBrowserSandbox pf sandboxId (Some h) w = (r2, w2)"
    from connectToBrowserSandbox_full [OF this] show "listeners w2 = listeners w"
      by (auto simp: onFocusChange_def)
  qed
  from la quiet loud custom show ?thesis
    using since_visibilitychange unsubscribe_removes_one by blast
qed

theorem C8_default_visibility_trigger_witness:
  "listeners world0 = []
   \<and> connectToBrowserSandbox healthy ''abc123'' None world0
       = (Inr (Client 0, resumedSandbox ''abc123''), connectedWorld)
   \<and> connectToSandbox (Some healthy) (Some demoInfo) (idle, world0)
       = (Inr (Some (Client 0)), connectedState, connectedWorld)
   \<and> last (trace connectedWorld) = Open (Session 0) (Inr (Client 0))
   \<and> connect_listens healthy (butlast (trace connectedWorld)) (Session 0)
   \<and> listeners connectedWorld = [nextListener world0]
   \<and> hookCalls connectedWorld = []
   \<and> since connectedWorld (visibilitychange Visible connectedWorld) = [Notify 0 True]
   \<and> listeners (unsubscribe (nextListener world0) connectedWorld) = []
   \<and> distinct (listeners twoListeners)
   \<and> since twoListeners (visibilitychange Visible twoListeners)
       = [Notify 0 True, Notify 1 True]
   \<and> since twoListeners (visibilitychange Hidden twoListeners)
       = [Notify 0 False, Notify 1 False]
   \<and> unsubscribe (nextListener world0) twoListeners = twoListeners\<lparr>listeners := [1]\<rparr>
   \<and> since (unsubscribe (nextListener world0) twoListeners)
         (visibilitychange Visible (unsubscribe (nextListener world0) twoListeners))
       = [Notify 1 True]
   \<and> connectToBrowserSandbox healthy ''abc123'' (Some 7) world0
       = (Inr (Client 0, resumedSandbox ''abc123''),
          world0\<lparr>trace := trace connectedWorld, hookCalls := [7]\<rparr>)
   \<and> listeners (world0\<lparr>trace := trace connectedWorld, hookCalls := [7]\<rparr>) = listeners world0"
proof -
  have wf: "\<forall>m \<in> set (listeners world0). m < nextListener world0"
    by (simp add: world0_def)
  have custom: "connectToBrowserSandbox healthy ''abc123'' (Some 7) world0
       = (Inr (Client 0, resumedSandbox ''abc123''),
          world0\<lparr>trace := trace connectedWorld, hookCalls := [7]\<rparr>)"
    by (simp add: connectToBrowserSandbox_def resume_def createSession_def
        sdk_connectToSandbox_def onFocusChange_def Let_def healthy_def world0_def
        resumedSandbox_def connectedWorld_def)
  have k: "connectToBrowserSandbox healthy ''abc123'' None world0
       = (Inr (Client 0, resumedSandbox ''abc123''), connectedWorld)
     \<or> connectToSandbox (Some healthy) (Some demoInfo) (idle, world0)
       = (Inr (Some (Client 0)), connectedState, connectedWorld)"
    using healthy_connect by simp
  from C8_default_visibility_trigger [OF wf k] healthy_browser_connect healthy_connect custom
  show ?thesis
    by (simp add: since_visibilitychange unsubscribe_def removeEventListener_def
        twoListeners_def connectedWorld_def world0_def healthy_def)
qed

subsection \<open>C9: the global error side channel\<close>

text \<open>
  Claim C9. A global listener prevents the default and dispatches the connection-error
  event exactly when the payload has a message that contains \<^verbatim>\<open>DataView\<close> or
  \<^verbatim>\<open>Offset is outside the bounds\<close>. Otherwise nothing changes. When the event is
  dispatched and there is no active sandbox, nothing changes either. When there is one,
  the hook sets the connection-lost message, calls \<^verbatim>\<open>client.disconnect()\<close> on its client
  if it has one (an exception of that call is caught), and clears the active sandbox.
\<close>

theorem C9_global_error_channel:
  "globalErrorListener pf ev (activeSandbox st) (st, w) = (prevented, st', w') \<Longrightarrow>
     fst (handleConnectionError pf (activeSandbox st) (st, w)) = None
   \<and> (prevented \<longleftrightarrow>
        (\<exists>m. message_of (payload ev) = Some m
           \<and> (includes_str m ''DataView'' \<or> includes_str m ''Offset is outside the bounds'')))
   \<and> (\<not> prevented \<longrightarrow> st' = st \<and> w' = w)
   \<and> (activeSandbox st = None \<longrightarrow> st' = st \<and> w' = w)
   \<and> (\<forall>a. prevented \<and> activeSandbox st = Some a \<longrightarrow>
          activeSandbox st' = None
        \<and> connectionError st' = Some connectionLostMessage
        \<and> (case client a of
             None \<Rightarrow> w' = w
           | Some c \<Rightarrow> since w w' = [ClientDisconnect c (disconnect_reply pf (trace w) c)]))"
  by (cases ev)
     (auto simp: isDataViewError_def skip_stmt_def seq_stmt_def try_catch_def
        setActiveSandbox_def setConnectionError_def call_disconnect_def console_error_def
        try_disconnect_def handleConnectionError_def client_disconnect_def drop_promise_def
        since_def Let_def split: option.splits if_splits sum.splits promise.splits)

theorem C9_global_error_channel_witness:
  "globalErrorListener (disconnect_throws (ErrorObj ''already closed''))
       (UnhandledRejection
          (ErrorObj ''RangeError: Offset is outside the bounds of the DataView''))
       (activeSandbox connectedState) (connectedState, connectedWorld)
     = (True,
        \<lparr>activeSandbox = None, connectionError = Some connectionLostMessage\<rparr>,
        connectedWorld\<lparr>trace := trace connectedWorld
          @ [ClientDisconnect (Client 0) (Inl (ErrorObj ''already closed''))]\<rparr>)
   \<and> includes_str ''RangeError: Offset is outside the bounds of the DataView'' ''DataView''
   \<and> globalErrorListener healthy (ErrorEvent (ErrorObj ''ResizeObserver loop limit exceeded''))
       (activeSandbox connectedState) (connectedState, connectedWorld)
     = (False, connectedState, connectedWorld)
   \<and> \<not> includes_str ''ResizeObserver loop limit exceeded'' ''DataView''
   \<and> \<not> includes_str ''ResizeObserver loop limit exceeded'' ''Offset is outside the bounds''
   \<and> globalErrorListener healthy (ErrorEvent (ErrorObj ''DataView is detached''))
       (activeSandbox idle) (idle, world0)
     = (True, idle, world0)"
proof -
  have g1: "globalErrorListener (disconnect_throws (ErrorObj ''already closed''))
       (UnhandledRejection
          (ErrorObj ''RangeError: Offset is outside the bounds of the DataView''))
       (activeSandbox connectedState) (connectedState, connectedWorld)
     = (True,
        \<lparr>activeSandbox = None, connectionError = Some connectionLostMessage\<rparr>,
        connectedWorld\<lparr>trace := trace connectedWorld
          @ [ClientDisconnect (Client 0) (Inl (ErrorObj ''already closed''))]\<rparr>)"
    by (simp add: isDataViewError_def handleConnectionError_def try_disconnect_def
        try_catch_def seq_stmt_def skip_stmt_def call_disconnect_def console_error_def
        setActiveSandbox_def setConnectionError_def client_disconnect_def drop_promise_def Let_def
        connectionLostMessage_def disconnect_throws_def healthy_def connectedState_def
        connectedWorld_def)
  have g2: "globalErrorListener healthy
       (ErrorEvent (ErrorObj ''ResizeObserver loop limit exceeded''))
       (activeSandbox connectedState) (connectedState, connectedWorld)
     = (False, connectedState, connectedWorld)"
    by (simp add: isDataViewError_def)
  have g3: "globalErrorListener healthy (ErrorEvent (ErrorObj ''DataView is detached''))
       (activeSandbox idle) (idle, world0) = (True, idle, world0)"
    by (simp add: isDataViewError_def handleConnectionError_def skip_stmt_def idle_def)
  from C9_global_error_channel [OF g1] C9_global_error_channel [OF g2]
    C9_global_error_channel [OF g3] g1 g2 g3
  show ?thesis by simp
qed

subsection \<open>C10: the guard of connect\<close>

text \<open>
  Claim C10. When the SDK is null or the sandbox info is falsy, the hook's
  \<^verbatim>\<open>connectToSandbox\<close> resolves to \<^verbatim>\<open>undefined\<close>, makes no call, and leaves the hook's
  state and the world as they were.
\<close>

theorem C10_guard_is_noop:
  "sdk = None \<or> sandboxInfo = None \<Longrightarrow>
     connectToSandbox sdk sandboxInfo (st, w) = (Inr None, st, w)"
  by (auto simp: connectToSandbox_def split: option.splits)

theorem C10_guard_is_noop_witness:
  "((None :: platform option) = None \<or> Some demoInfo = None)
   \<and> connectToSandbox None (Some demoInfo) (idle, world0) = (Inr None, idle, world0)
   \<and> (Some healthy = None \<or> (None :: SandboxInfo option) = None)
   \<and> connectToSandbox (Some healthy) None (connectedState, connectedWorld)
       = (Inr None, connectedState, connectedWorld)"
  using C10_guard_is_noop [of None "Some demoInfo" idle world0]
    C10_guard_is_noop [of "Some healthy" None connectedState connectedWorld]
  by simp

end
